theory Spec2Isabelle
  imports Complex_Main
begin

section \<open>Data model\<close>

text \<open>
  The event log is the JSON document written by the recorders and read back with
  \<^verbatim>\<open>json.load\<close>. Every field the code reads with \<^verbatim>\<open>dict.get\<close> is an
  option here: \<open>None\<close> is an absent key, and the default of the \<^verbatim>\<open>get\<close> is
  written out where the field is read. Timestamps are seconds since session start,
  modelled as reals. Strings are lists of characters, one \<open>char\<close> per code point
  below 256.
\<close>

record keyboard_event =
  kb_type :: "string option"
  kb_timestamp :: "real option"
  key_name :: "string option"
  is_character :: "bool option"

record position =
  pos_x :: "int option"
  pos_y :: "int option"

record mouse_event =
  ms_type :: "string option"
  ms_timestamp :: "real option"
  button :: "string option"
  ms_position :: "position option"

record app_switch =
  sw_timestamp :: "real option"
  from_app :: "string option"
  to_app :: "string option"

record session_info =
  duration :: "real option"

record event_log =
  log_session_info :: "session_info option"
  mouse_interactions :: "mouse_event list option"
  keyboard_events :: "keyboard_event list option"
  app_switches :: "app_switch list option"

text \<open>The dataclass \<^verbatim>\<open>UIInteraction\<close> of enhanced_murex_rpa_generator.py.\<close>

record UIInteraction =
  timestamp :: real
  action_type :: string
  description :: string
  ui_context :: "string option"
  coordinates :: "(int \<times> int) option"
  text_content :: "string option"
  confidence :: real

text \<open>
  The dictionaries appended to \<^verbatim>\<open>sequences\<close> by \<^verbatim>\<open>_group_text_sequences\<close>. The
  timestamp is \<^verbatim>\<open>sequence_start\<close>, which starts as Python's \<^verbatim>\<open>None\<close>.
\<close>

record text_sequence =
  seq_timestamp :: "real option"
  seq_text :: string
  end_action :: string

datatype py_error = TypeError

section \<open>Python string helpers\<close>

text \<open>
  \<^verbatim>\<open>str.isspace\<close> on one code point below 256: tab to carriage return, the four
  separators 28 to 31, space, NEL (133) and the no-break space (160).
\<close>

definition py_isspace :: "char \<Rightarrow> bool" where
  "py_isspace c = (of_char c \<in> {9, 10, 11, 12, 13, 28, 29, 30, 31, 32, 133, 160 :: nat})"

text \<open>\<^verbatim>\<open>str.strip()\<close>: leading and trailing whitespace removed.\<close>

definition py_strip :: "string \<Rightarrow> string" where
  "py_strip s = rev (dropWhile py_isspace (rev (dropWhile py_isspace s)))"

section \<open>Text-sequence grouper\<close>

text \<open>
  The three local variables of \<^verbatim>\<open>_group_text_sequences\<close> that the loop updates.
\<close>

record grouper_state =
  sequences :: "text_sequence list"
  current_text :: string
  sequence_start :: "real option"

text \<open>
  The guard of the loop body:
  \<^verbatim>\<open>event.get('type') == 'key_press' and event.get('is_character')\<close>.
\<close>

definition is_key_press_character :: "keyboard_event \<Rightarrow> bool" where
  "is_key_press_character event =
     (kb_type event = Some ''key_press'' \<and> is_character event = Some True)"

text \<open>One iteration of the \<^verbatim>\<open>for event in keyboard_events\<close> loop.\<close>

definition group_step :: "grouper_state \<Rightarrow> keyboard_event \<Rightarrow> grouper_state" where
  "group_step st event =
     (if is_key_press_character event then
        (let key = (case key_name event of None \<Rightarrow> [] | Some k \<Rightarrow> k);
             ts = (case kb_timestamp event of None \<Rightarrow> 0 | Some t \<Rightarrow> t)
         in if key \<in> set [''Return'', ''Enter''] then
              st\<lparr>sequences :=
                   (if py_strip (current_text st) \<noteq> [] then
                      sequences st @
                        [\<lparr>seq_timestamp = sequence_start st,
                          seq_text = current_text st,
                          end_action = ''enter''\<rparr>]
                    else sequences st),
                 current_text := [],
                 sequence_start := None\<rparr>
            else if key = ''Tab'' then
              st\<lparr>sequences :=
                   (if py_strip (current_text st) \<noteq> [] then
                      sequences st @
                        [\<lparr>seq_timestamp = sequence_start st,
                          seq_text = current_text st,
                          end_action = ''tab''\<rparr>]
                    else sequences st),
                 current_text := [],
                 sequence_start := None\<rparr>
            else if key \<in> set [''Delete'', ''BackSpace''] then
              (if current_text st \<noteq> [] then
                 st\<lparr>current_text := butlast (current_text st)\<rparr>
               else
                 st\<lparr>sequences :=
                      sequences st @
                        [\<lparr>seq_timestamp = Some ts,
                          seq_text = [],
                          end_action = ''delete''\<rparr>]\<rparr>)
            else if key \<noteq> [] \<and> length key = 1 then
              st\<lparr>sequence_start :=
                   (if current_text st = [] then Some ts else sequence_start st),
                 current_text := current_text st @ key\<rparr>
            else st)
      else st)"

fun group_loop :: "grouper_state \<Rightarrow> keyboard_event list \<Rightarrow> grouper_state" where
  "group_loop st [] = st"
| "group_loop st (event # events) = group_loop (group_step st event) events"

definition group_init :: grouper_state where
  "group_init = \<lparr>sequences = [], current_text = [], sequence_start = None\<rparr>"

text \<open>The code after the loop (``Handle remaining text'') and the return.\<close>

definition group_finish :: "grouper_state \<Rightarrow> text_sequence list" where
  "group_finish st =
     (if py_strip (current_text st) \<noteq> [] then
        sequences st @
          [\<lparr>seq_timestamp = sequence_start st,
            seq_text = current_text st,
            end_action = ''incomplete''\<rparr>]
      else sequences st)"

definition group_text_sequences :: "keyboard_event list \<Rightarrow> text_sequence list" where
  "group_text_sequences keyboard_events' = group_finish (group_loop group_init keyboard_events')"

text \<open>
  A key-press record as the macOS recorder logs it for a key whose name is
  alphanumeric or punctuation: type \<^verbatim>\<open>key_press\<close>, \<^verbatim>\<open>is_character\<close> true.
\<close>

definition key_press :: "string \<Rightarrow> real \<Rightarrow> keyboard_event" where
  "key_press k t =
     \<lparr>kb_type = Some ''key_press'', kb_timestamp = Some t,
      key_name = Some k, is_character = Some True\<rparr>"

section \<open>Interaction extractor\<close>

text \<open>\<^verbatim>\<open>str(x)\<close> inside an f-string for a value that is a string or \<^verbatim>\<open>None\<close>.\<close>

definition py_str :: "string option \<Rightarrow> string" where
  "py_str v = (case v of None \<Rightarrow> ''None'' | Some s \<Rightarrow> s)"

text \<open>The \<^verbatim>\<open>UIInteraction\<close> built for one left mouse press.\<close>

definition click_interaction :: "mouse_event \<Rightarrow> UIInteraction" where
  "click_interaction event =
     \<lparr>timestamp = (case ms_timestamp event of None \<Rightarrow> 0 | Some t \<Rightarrow> t),
      action_type = ''click'',
      description = ''Click at screen location'',
      ui_context = None,
      coordinates =
        Some ((case ms_position event of None \<Rightarrow> 0
               | Some p \<Rightarrow> (case pos_x p of None \<Rightarrow> 0 | Some v \<Rightarrow> v)),
              (case ms_position event of None \<Rightarrow> 0
               | Some p \<Rightarrow> (case pos_y p of None \<Rightarrow> 0 | Some v \<Rightarrow> v))),
      text_content = None,
      confidence = 0\<rparr>"

definition collect_clicks :: "mouse_event list \<Rightarrow> UIInteraction list" where
  "collect_clicks mouse_events =
     map click_interaction
       (filter (\<lambda>event. ms_type event = Some ''mouse_press'' \<and> button event = Some ''left'')
          mouse_events)"

text \<open>
  The loop over \<^verbatim>\<open>text_sequences\<close>. The field \<^verbatim>\<open>timestamp\<close> is declared
  \<^verbatim>\<open>float\<close>; Python would store a \<^verbatim>\<open>None\<close> unchecked and raise \<^verbatim>\<open>TypeError\<close>
  at the first comparison or subtraction on it. The model raises where the value is
  stored; \<open>type_interactions_grouped\<close> below shows that the grouper never hands over
  such a sequence.
\<close>

fun type_interactions :: "text_sequence list \<Rightarrow> py_error + UIInteraction list" where
  "type_interactions [] = Inr []"
| "type_interactions (seq # seqs) =
     (if py_strip (seq_text seq) \<noteq> [] then
        (case seq_timestamp seq of
           None \<Rightarrow> Inl TypeError
         | Some t \<Rightarrow>
             (case type_interactions seqs of
                Inl e \<Rightarrow> Inl e
              | Inr rest \<Rightarrow>
                  Inr (\<lparr>timestamp = t,
                        action_type = ''type'',
                        description = ''Type '' @ [CHR 0x27] @ seq_text seq @ [CHR 0x27],
                        ui_context = Some (end_action seq),
                        coordinates = None,
                        text_content = Some (seq_text seq),
                        confidence = 0\<rparr> # rest)))
      else type_interactions seqs)"

definition navigate_interaction :: "app_switch \<Rightarrow> UIInteraction" where
  "navigate_interaction switch =
     \<lparr>timestamp = (case sw_timestamp switch of None \<Rightarrow> 0 | Some t \<Rightarrow> t),
      action_type = ''navigate'',
      description =
        ''Switch from '' @ py_str (from_app switch) @ '' to '' @ py_str (to_app switch),
      ui_context = Some (''app_switch:'' @ py_str (to_app switch)),
      coordinates = None,
      text_content = None,
      confidence = 0\<rparr>"

text \<open>
  \<^verbatim>\<open>extract_enhanced_interactions\<close> on the parsed document. The list is filled with
  the typed sequences first, then extended by the clicks, then by the application
  switches, and sorted by \<^verbatim>\<open>list.sort(key=...)\<close>, which is stable, as \<open>sort_key\<close> is.
\<close>

definition extract_enhanced_interactions :: "event_log \<Rightarrow> py_error + UIInteraction list" where
  "extract_enhanced_interactions data =
     (let mouse_events = (case mouse_interactions data of None \<Rightarrow> [] | Some l \<Rightarrow> l);
          clicks = collect_clicks mouse_events;
          keyboard_events' = (case keyboard_events data of None \<Rightarrow> [] | Some l \<Rightarrow> l);
          text_sequences = group_text_sequences keyboard_events'
      in case type_interactions text_sequences of
           Inl e \<Rightarrow> Inl e
         | Inr typed \<Rightarrow>
             Inr (sort_key timestamp
                    (typed @ clicks @
                     map navigate_interaction
                       (case app_switches data of None \<Rightarrow> [] | Some l \<Rightarrow> l))))"

text \<open>
  The place of an interaction's kind in the order the list is filled: typed text,
  click, application switch. Used to state the order of entries with equal timestamps.
\<close>

definition fill_rank :: "UIInteraction \<Rightarrow> nat" where
  "fill_rank i =
     (if action_type i = ''type'' then 0 else if action_type i = ''click'' then 1 else 2)"

definition before_in_output :: "UIInteraction \<Rightarrow> UIInteraction \<Rightarrow> bool" where
  "before_in_output a b =
     (timestamp a < timestamp b \<or> (timestamp a = timestamp b \<and> fill_rank a \<le> fill_rank b))"

section \<open>Time windows\<close>

record time_window =
  w_start :: real
  w_end :: real
  w_interactions :: "UIInteraction list"

text \<open>
  The loop of \<^verbatim>\<open>_create_time_windows\<close> over \<^verbatim>\<open>interactions[1:]\<close>, with the closed
  windows and the current window as its state, followed by the final append.
\<close>

fun windows_loop ::
  "real \<Rightarrow> time_window list \<Rightarrow> time_window \<Rightarrow> UIInteraction list \<Rightarrow> time_window list" where
  "windows_loop window_size windows current_window [] = windows @ [current_window]"
| "windows_loop window_size windows current_window (interaction # rest) =
     (if timestamp interaction - w_end current_window \<le> window_size then
        windows_loop window_size windows
          (current_window\<lparr>w_end := timestamp interaction,
                          w_interactions := w_interactions current_window @ [interaction]\<rparr>)
          rest
      else
        windows_loop window_size (windows @ [current_window])
          \<lparr>w_start = timestamp interaction,
           w_end = timestamp interaction,
           w_interactions = [interaction]\<rparr>
          rest)"

definition create_time_windows :: "UIInteraction list \<Rightarrow> real \<Rightarrow> time_window list" where
  "create_time_windows interactions window_size =
     (case interactions of
        [] \<Rightarrow> []
      | first # rest \<Rightarrow>
          windows_loop window_size []
            \<lparr>w_start = timestamp first, w_end = timestamp first, w_interactions = [first]\<rparr>
            rest)"

section \<open>Gap analyzer\<close>

record gap =
  g_start :: real
  g_end :: real
  g_duration :: real

text \<open>
  The loop \<^verbatim>\<open>for i in range(len(sorted_interactions) - 1)\<close> of
  \<^verbatim>\<open>_find_interaction_gaps\<close>: the gaps it appends, in order.
\<close>

fun gaps_between :: "real \<Rightarrow> UIInteraction list \<Rightarrow> gap list" where
  "gaps_between gap_threshold (current # next # rest) =
     (if timestamp next - timestamp current > gap_threshold then
        [\<lparr>g_start = timestamp current,
          g_end = timestamp next,
          g_duration = timestamp next - timestamp current\<rparr>]
      else [])
     @ gaps_between gap_threshold (next # rest)"
| "gaps_between gap_threshold [current] = []"
| "gaps_between gap_threshold [] = []"

text \<open>
  \<^verbatim>\<open>sorted_interactions[0]\<close> and \<^verbatim>\<open>sorted_interactions[-1]\<close> are read only after the
  early return for the empty list, so \<open>hd\<close> and \<open>last\<close> are applied to a non-empty list.
\<close>

definition find_interaction_gaps :: "UIInteraction list \<Rightarrow> real \<Rightarrow> real \<Rightarrow> gap list" where
  "find_interaction_gaps interactions session_duration gap_threshold =
     (if interactions = [] then
        [\<lparr>g_start = 0, g_end = session_duration, g_duration = session_duration\<rparr>]
      else
        (let sorted_interactions = sort_key timestamp interactions;
             first_timestamp = timestamp (hd sorted_interactions);
             last_timestamp = timestamp (last sorted_interactions)
         in (if first_timestamp > gap_threshold then
               [\<lparr>g_start = 0, g_end = first_timestamp, g_duration = first_timestamp\<rparr>]
             else [])
            @ gaps_between gap_threshold sorted_interactions
            @ (if session_duration - last_timestamp > gap_threshold then
                 [\<lparr>g_start = last_timestamp,
                   g_end = session_duration,
                   g_duration = session_duration - last_timestamp\<rparr>]
               else [])))"

section \<open>Completeness scorer\<close>

text \<open>
  \<^verbatim>\<open>str.lower\<close> on one code point below 256: the letters A to Z and the Latin-1
  capitals 192 to 222 (the multiplication sign 215 apart) move up by 32.
\<close>

definition py_lower_char :: "char \<Rightarrow> char" where
  "py_lower_char c =
     (let n = (of_char c :: nat)
      in if (65 \<le> n \<and> n \<le> 90) \<or> (192 \<le> n \<and> n \<le> 222 \<and> n \<noteq> 215)
         then char_of (n + 32) else c)"

definition py_lower :: "string \<Rightarrow> string" where
  "py_lower s = map py_lower_char s"

fun starts_with :: "string \<Rightarrow> string \<Rightarrow> bool" where
  "starts_with s [] = True"
| "starts_with [] (p # ps) = False"
| "starts_with (c # cs) (p # ps) = (c = p \<and> starts_with cs ps)"

text \<open>\<^verbatim>\<open>pattern in text\<close> on strings: \<open>pattern\<close> occurs as a substring of \<open>text\<close>.\<close>

fun py_in :: "string \<Rightarrow> string \<Rightarrow> bool" where
  "py_in pattern [] = (pattern = [])"
| "py_in pattern (c # cs) = (starts_with (c # cs) pattern \<or> py_in pattern cs)"

definition login_words :: "string list" where
  "login_words = [''login'', ''username'', ''password'', ''authenticate'']"

definition completion_words :: "string list" where
  "completion_words =
     [''complete'', ''finish'', ''close'', ''final'', ''result'', ''summary'', ''end'', ''done'']"

definition murex_patterns :: "string list" where
  "murex_patterns =
     [''press spacebar'', ''input field and type'', ''dropdown icon'', ''three dots'',
      ''double-click'', ''top bar'', ''ctrl+f'', ''search bar and press enter'']"

definition has_login_of :: "string \<Rightarrow> bool" where
  "has_login_of rpa_commands =
     list_ex (\<lambda>word. py_in word (py_lower rpa_commands)) login_words"

definition has_completion_of :: "string \<Rightarrow> bool" where
  "has_completion_of rpa_commands =
     list_ex (\<lambda>word. py_in word (py_lower rpa_commands)) completion_words"

definition murex_pattern_count_of :: "string \<Rightarrow> nat" where
  "murex_pattern_count_of rpa_commands =
     length (filter (\<lambda>pattern. py_in pattern (py_lower rpa_commands)) murex_patterns)"

definition has_murex_patterns_of :: "string \<Rightarrow> bool" where
  "has_murex_patterns_of rpa_commands = (murex_pattern_count_of rpa_commands \<ge> 3)"

definition has_numbered_steps_of :: "string \<Rightarrow> bool" where
  "has_numbered_steps_of rpa_commands =
     (py_in ''1.'' rpa_commands \<and> py_in ''2.'' rpa_commands)"

definition has_descriptive_headers_of :: "string \<Rightarrow> bool" where
  "has_descriptive_headers_of rpa_commands = py_in ''**'' rpa_commands"

definition expected_min_length_of :: "UIInteraction list \<Rightarrow> nat" where
  "expected_min_length_of interactions = max 400 (length interactions * 25)"

definition adequate_length_of :: "string \<Rightarrow> UIInteraction list \<Rightarrow> bool" where
  "adequate_length_of rpa_commands interactions =
     (length rpa_commands \<ge> expected_min_length_of interactions)"

record completeness =
  score :: nat
  has_login :: bool
  has_completion :: bool
  adequate_length :: bool
  has_murex_patterns :: bool
  murex_pattern_count :: nat
  has_structured_format :: bool
  command_length :: nat
  expected_min_length :: nat

text \<open>
  \<^verbatim>\<open>_assess_workflow_completeness\<close>; the definitions above are its local variables.
  \<^verbatim>\<open>session_duration\<close> is a parameter the body never reads.
\<close>

definition assess_workflow_completeness ::
  "string \<Rightarrow> real \<Rightarrow> UIInteraction list \<Rightarrow> completeness" where
  "assess_workflow_completeness rpa_commands session_duration interactions =
     \<lparr>score =
        (if has_login_of rpa_commands then 2 else 0)
        + (if has_completion_of rpa_commands then 2 else 0)
        + (if adequate_length_of rpa_commands interactions then 2 else 0)
        + (if has_murex_patterns_of rpa_commands then 2 else 0)
        + (if has_numbered_steps_of rpa_commands then 1 else 0)
        + (if has_descriptive_headers_of rpa_commands then 1 else 0),
      has_login = has_login_of rpa_commands,
      has_completion = has_completion_of rpa_commands,
      adequate_length = adequate_length_of rpa_commands interactions,
      has_murex_patterns = has_murex_patterns_of rpa_commands,
      murex_pattern_count = murex_pattern_count_of rpa_commands,
      has_structured_format =
        (has_numbered_steps_of rpa_commands \<and> has_descriptive_headers_of rpa_commands),
      command_length = length rpa_commands,
      expected_min_length = expected_min_length_of interactions\<rparr>"

section \<open>Validator\<close>

text \<open>
  The messages of \<^verbatim>\<open>validate_json_file\<close> are f-strings; each constructor is one
  template with the values it interpolates (the rendering of numbers is not modelled).
\<close>

datatype message =
  JsonFileNotFound string
| InvalidJsonFormat string
| MissingRequiredKeys "string list"
| NoInteractionsFound
| VeryFewMouseInteractions nat
| InteractionsFound nat nat
| NoSessionDurationInfo
| LongSessionDuration real

record ValidationResult =
  is_valid :: bool
  message :: message
  severity :: string
  suggestion :: "string option"

text \<open>
  What \<^verbatim>\<open>json_path\<close> holds: nothing (\<^verbatim>\<open>os.path.exists\<close> is false), text that
  \<^verbatim>\<open>json.load\<close> rejects with the given \<^verbatim>\<open>JSONDecodeError\<close> text, or a document.
\<close>

datatype json_file = Missing | Malformed string | Document event_log

definition missing_keys_of :: "event_log \<Rightarrow> string list" where
  "missing_keys_of data =
     (if mouse_interactions data = None then [''mouse_interactions''] else [])
     @ (if keyboard_events data = None then [''keyboard_events''] else [])"

definition validate_json_file :: "string \<Rightarrow> json_file \<Rightarrow> ValidationResult list" where
  "validate_json_file json_path file =
     (case file of
        Missing \<Rightarrow>
          [\<lparr>is_valid = False,
            message = JsonFileNotFound json_path,
            severity = ''error'',
            suggestion =
              Some ''Check the file path and ensure the interaction JSON file exists''\<rparr>]
      | Malformed e \<Rightarrow>
          [\<lparr>is_valid = False,
            message = InvalidJsonFormat e,
            severity = ''error'',
            suggestion =
              Some (''Check the JSON file for syntax errors and ensure it'' @ [CHR 0x27]
                    @ ''s properly formatted'')\<rparr>]
      | Document data \<Rightarrow>
          (let missing_keys = missing_keys_of data;
               mouse_count =
                 (case mouse_interactions data of None \<Rightarrow> 0 | Some l \<Rightarrow> length l);
               keyboard_count =
                 (case keyboard_events data of None \<Rightarrow> 0 | Some l \<Rightarrow> length l);
               duration' =
                 (case log_session_info data of
                    None \<Rightarrow> 0
                  | Some info \<Rightarrow> (case duration info of None \<Rightarrow> 0 | Some d \<Rightarrow> d))
           in (if missing_keys \<noteq> [] then
                 [\<lparr>is_valid = False,
                   message = MissingRequiredKeys missing_keys,
                   severity = ''error'',
                   suggestion =
                     Some ''Ensure the interaction recording captured all required data''\<rparr>]
               else [])
              @ (if mouse_count = 0 \<and> keyboard_count = 0 then
                   [\<lparr>is_valid = False,
                     message = NoInteractionsFound,
                     severity = ''error'',
                     suggestion = Some ''Re-record the workflow with user interactions''\<rparr>]
                 else if mouse_count < 3 then
                   [\<lparr>is_valid = True,
                     message = VeryFewMouseInteractions mouse_count,
                     severity = ''warning'',
                     suggestion =
                       Some ''Workflow might be too simple or recording may be incomplete''\<rparr>]
                 else
                   [\<lparr>is_valid = True,
                     message = InteractionsFound mouse_count keyboard_count,
                     severity = ''info'',
                     suggestion = None\<rparr>])
              @ (if duration' = 0 then
                   [\<lparr>is_valid = True,
                     message = NoSessionDurationInfo,
                     severity = ''warning'',
                     suggestion = Some ''Session duration helps with timing analysis''\<rparr>]
                 else if duration' > 600 then
                   [\<lparr>is_valid = True,
                     message = LongSessionDuration duration',
                     severity = ''warning'',
                     suggestion =
                       Some ''Long workflows may be complex to process and generate lengthy commands''\<rparr>]
                 else [])))"

section \<open>Properties of the grouper\<close>

lemma py_strip_Nil [simp]: "py_strip [] = []"
  by (simp add: py_strip_def)

lemma group_loop_append:
  "group_loop st (xs @ ys) = group_loop (group_loop st xs) ys"
  by (induction xs arbitrary: st) simp_all

lemma group_step_ignored:
  "\<not> is_key_press_character event \<Longrightarrow> group_step st event = st"
  by (simp add: group_step_def)

lemma group_loop_filter:
  "group_loop st (filter is_key_press_character events) = group_loop st events"
  by (induction events arbitrary: st) (simp_all add: group_step_ignored)

lemma group_step_char:
  "group_step st (key_press [c] t) =
     st\<lparr>sequence_start := (if current_text st = [] then Some t else sequence_start st),
        current_text := current_text st @ [c]\<rparr>"
  by (simp add: group_step_def key_press_def is_key_press_character_def)

lemma group_step_enter:
  "k = ''Return'' \<or> k = ''Enter'' \<Longrightarrow>
   group_step st (key_press k t) =
     st\<lparr>sequences :=
          (if py_strip (current_text st) \<noteq> [] then
             sequences st @
               [\<lparr>seq_timestamp = sequence_start st,
                 seq_text = current_text st,
                 end_action = ''enter''\<rparr>]
           else sequences st),
        current_text := [],
        sequence_start := None\<rparr>"
  by (auto simp add: group_step_def key_press_def is_key_press_character_def)

lemma group_step_delete:
  "k = ''Delete'' \<or> k = ''BackSpace'' \<Longrightarrow>
   group_step st (key_press k t) =
     (if current_text st \<noteq> [] then st\<lparr>current_text := butlast (current_text st)\<rparr>
      else st\<lparr>sequences :=
                sequences st @
                  [\<lparr>seq_timestamp = Some t, seq_text = [], end_action = ''delete''\<rparr>]\<rparr>)"
  by (auto simp add: group_step_def key_press_def is_key_press_character_def)

lemma py_strip_hi: "py_strip ''hi'' = ''hi''"
  by (simp add: py_strip_def py_isspace_def)

lemma py_strip_h: "py_strip ''h'' = ''h''"
  by (simp add: py_strip_def py_isspace_def)

subsection \<open>Claim C2\<close>

text \<open>
  C2 as written fails: the grouper looks at the key name only for events that pass
  the guard, so an Enter press whose \<^verbatim>\<open>is_character\<close> is false does not close the
  sequence. For the stream "h", "i", Enter with that flag false on Enter, the text is
  still pending at the end of the stream and is emitted as \<^verbatim>\<open>incomplete\<close>.
\<close>

theorem enter_without_character_flag_counterexample:
  "group_text_sequences
     [key_press ''h'' 0, key_press ''i'' 1,
      \<lparr>kb_type = Some ''key_press'', kb_timestamp = Some 2,
       key_name = Some ''Enter'', is_character = Some False\<rparr>]
   = [\<lparr>seq_timestamp = Some 0, seq_text = ''hi'', end_action = ''incomplete''\<rparr>]
   \<and> group_text_sequences
     [key_press ''h'' 0, key_press ''i'' 1,
      \<lparr>kb_type = Some ''key_press'', kb_timestamp = Some 2,
       key_name = Some ''Enter'', is_character = Some False\<rparr>]
   \<noteq> [\<lparr>seq_timestamp = Some 0, seq_text = ''hi'', end_action = ''enter''\<rparr>]"
  by (simp add: group_text_sequences_def group_init_def group_finish_def group_step_char
      group_step_ignored is_key_press_character_def py_strip_hi)

text \<open>
  C2, amended: a \<^verbatim>\<open>key_press\<close> event with a true \<^verbatim>\<open>is_character\<close> flag and key name
  \<^verbatim>\<open>Return\<close> or \<^verbatim>\<open>Enter\<close> appends the pending sequence (start, accumulator, end action
  \<^verbatim>\<open>enter\<close>) exactly when the accumulator is non-empty after stripping whitespace, and
  resets the accumulator and the start in either case. With the flag true on all three
  events, the stream "h", "i", Enter (or Return) yields exactly one sequence, with
  the timestamp of "h", text "hi" and end action \<^verbatim>\<open>enter\<close>.
\<close>

theorem enter_emits_pending_sequence:
  assumes "kb_type event = Some ''key_press''"
    and "is_character event = Some True"
    and "key_name event = Some ''Return'' \<or> key_name event = Some ''Enter''"
  shows "sequences (group_step st event) =
           (if py_strip (current_text st) \<noteq> [] then
              sequences st @
                [\<lparr>seq_timestamp = sequence_start st,
                  seq_text = current_text st,
                  end_action = ''enter''\<rparr>]
            else sequences st)
         \<and> current_text (group_step st event) = []
         \<and> sequence_start (group_step st event) = None
         \<and> group_text_sequences
              [key_press ''h'' t1, key_press ''i'' t2, key_press ''Enter'' t3]
            = [\<lparr>seq_timestamp = Some t1, seq_text = ''hi'', end_action = ''enter''\<rparr>]
         \<and> group_text_sequences
              [key_press ''h'' t1, key_press ''i'' t2, key_press ''Return'' t3]
            = [\<lparr>seq_timestamp = Some t1, seq_text = ''hi'', end_action = ''enter''\<rparr>]"
proof -
  have gate: "is_key_press_character event"
    using assms(1,2) by (simp add: is_key_press_character_def)
  have step: "sequences (group_step st event) =
           (if py_strip (current_text st) \<noteq> [] then
              sequences st @
                [\<lparr>seq_timestamp = sequence_start st,
                  seq_text = current_text st,
                  end_action = ''enter''\<rparr>]
            else sequences st)
         \<and> current_text (group_step st event) = []
         \<and> sequence_start (group_step st event) = None"
    using gate assms(3) by (auto simp add: group_step_def)
  have ex1: "group_text_sequences
              [key_press ''h'' t1, key_press ''i'' t2, key_press ''Enter'' t3]
            = [\<lparr>seq_timestamp = Some t1, seq_text = ''hi'', end_action = ''enter''\<rparr>]"
    by (simp add: group_text_sequences_def group_init_def group_finish_def
        group_step_char group_step_enter py_strip_hi)
  have ex2: "group_text_sequences
              [key_press ''h'' t1, key_press ''i'' t2, key_press ''Return'' t3]
            = [\<lparr>seq_timestamp = Some t1, seq_text = ''hi'', end_action = ''enter''\<rparr>]"
    by (simp add: group_text_sequences_def group_init_def group_finish_def
        group_step_char group_step_enter py_strip_hi)
  from step ex1 ex2 show ?thesis by simp
qed

theorem enter_emits_pending_sequence_witness:
  "kb_type (key_press ''Enter'' 2) = Some ''key_press''
   \<and> is_character (key_press ''Enter'' 2) = Some True
   \<and> key_name (key_press ''Enter'' 2) = Some ''Enter''
   \<and> sequences (group_step
         \<lparr>sequences = [], current_text = ''hi'', sequence_start = Some 0\<rparr>
         (key_press ''Enter'' 2))
       = [\<lparr>seq_timestamp = Some 0, seq_text = ''hi'', end_action = ''enter''\<rparr>]
   \<and> current_text (group_step
         \<lparr>sequences = [], current_text = ''hi'', sequence_start = Some 0\<rparr>
         (key_press ''Enter'' 2)) = []"
proof -
  have h1: "kb_type (key_press ''Enter'' 2) = Some ''key_press''"
    by (simp add: key_press_def)
  have h2: "is_character (key_press ''Enter'' 2) = Some True"
    by (simp add: key_press_def)
  have h3: "key_name (key_press ''Enter'' 2) = Some ''Return''
            \<or> key_name (key_press ''Enter'' 2) = Some ''Enter''"
    by (simp add: key_press_def)
  show ?thesis
    using enter_emits_pending_sequence [OF h1 h2 h3,
        of "\<lparr>sequences = [], current_text = ''hi'', sequence_start = Some 0\<rparr>" 0 0 0]
      h1 h2
    by (simp add: py_strip_hi key_press_def)
qed

subsection \<open>Claim C7\<close>

text \<open>
  C7 as written fails for the same guard: a BackSpace press whose \<^verbatim>\<open>is_character\<close>
  is false neither deletes nor emits. For "h", BackSpace, BackSpace with the flag false
  on both BackSpace presses, the only output is the pending "h", and no delete event.
\<close>

theorem backspace_without_character_flag_counterexample:
  "group_text_sequences
     [key_press ''h'' 0,
      \<lparr>kb_type = Some ''key_press'', kb_timestamp = Some 1,
       key_name = Some ''BackSpace'', is_character = Some False\<rparr>,
      \<lparr>kb_type = Some ''key_press'', kb_timestamp = Some 2,
       key_name = Some ''BackSpace'', is_character = Some False\<rparr>]
   = [\<lparr>seq_timestamp = Some 0, seq_text = ''h'', end_action = ''incomplete''\<rparr>]"
  by (simp add: group_text_sequences_def group_init_def group_finish_def group_step_char
      group_step_ignored is_key_press_character_def py_strip_h)

text \<open>
  C7, amended: a \<^verbatim>\<open>key_press\<close> event with a true \<^verbatim>\<open>is_character\<close> flag and key name
  \<^verbatim>\<open>Delete\<close> or \<^verbatim>\<open>BackSpace\<close> removes the last character of a non-empty accumulator
  and emits nothing; with an empty accumulator it leaves the accumulator and the start
  alone and appends the event (event timestamp, empty text, end action \<^verbatim>\<open>delete\<close>).
  With the flag true on all three events, the stream "h", BackSpace, BackSpace yields
  exactly one sequence, the empty-text delete event of the second BackSpace.
\<close>

theorem delete_removes_or_emits:
  assumes "kb_type event = Some ''key_press''"
    and "is_character event = Some True"
    and "key_name event = Some ''Delete'' \<or> key_name event = Some ''BackSpace''"
  shows "(current_text st \<noteq> [] \<longrightarrow>
            group_step st event = st\<lparr>current_text := butlast (current_text st)\<rparr>)
         \<and> (current_text st = [] \<longrightarrow>
            group_step st event =
              st\<lparr>sequences :=
                   sequences st @
                     [\<lparr>seq_timestamp =
                         Some (case kb_timestamp event of None \<Rightarrow> 0 | Some t \<Rightarrow> t),
                       seq_text = [],
                       end_action = ''delete''\<rparr>]\<rparr>)
         \<and> group_text_sequences
              [key_press ''h'' t1, key_press ''BackSpace'' t2, key_press ''BackSpace'' t3]
            = [\<lparr>seq_timestamp = Some t3, seq_text = [], end_action = ''delete''\<rparr>]"
proof -
  have gate: "is_key_press_character event"
    using assms(1,2) by (simp add: is_key_press_character_def)
  have step: "group_step st event =
     (if current_text st \<noteq> [] then st\<lparr>current_text := butlast (current_text st)\<rparr>
      else st\<lparr>sequences :=
                sequences st @
                  [\<lparr>seq_timestamp =
                      Some (case kb_timestamp event of None \<Rightarrow> 0 | Some t \<Rightarrow> t),
                    seq_text = [],
                    end_action = ''delete''\<rparr>]\<rparr>)"
    using gate assms(3) by (auto simp add: group_step_def)
  have ex: "group_text_sequences
              [key_press ''h'' t1, key_press ''BackSpace'' t2, key_press ''BackSpace'' t3]
            = [\<lparr>seq_timestamp = Some t3, seq_text = [], end_action = ''delete''\<rparr>]"
    by (simp add: group_text_sequences_def group_init_def group_finish_def
        group_step_char group_step_delete)
  from step ex show ?thesis by simp
qed

theorem delete_removes_or_emits_witness:
  "kb_type (key_press ''BackSpace'' 3) = Some ''key_press''
   \<and> is_character (key_press ''BackSpace'' 3) = Some True
   \<and> key_name (key_press ''BackSpace'' 3) = Some ''BackSpace''
   \<and> group_step \<lparr>sequences = [], current_text = ''hi'', sequence_start = Some 0\<rparr>
        (key_press ''BackSpace'' 3)
      = \<lparr>sequences = [], current_text = ''h'', sequence_start = Some 0\<rparr>
   \<and> group_step \<lparr>sequences = [], current_text = [], sequence_start = Some 0\<rparr>
        (key_press ''BackSpace'' 3)
      = \<lparr>sequences = [\<lparr>seq_timestamp = Some 3, seq_text = [], end_action = ''delete''\<rparr>],
         current_text = [], sequence_start = Some 0\<rparr>"
proof -
  have h1: "kb_type (key_press ''BackSpace'' 3) = Some ''key_press''"
    by (simp add: key_press_def)
  have h2: "is_character (key_press ''BackSpace'' 3) = Some True"
    by (simp add: key_press_def)
  have h3: "key_name (key_press ''BackSpace'' 3) = Some ''Delete''
            \<or> key_name (key_press ''BackSpace'' 3) = Some ''BackSpace''"
    by (simp add: key_press_def)
  show ?thesis
    using delete_removes_or_emits [OF h1 h2 h3,
        of "\<lparr>sequences = [], current_text = ''hi'', sequence_start = Some 0\<rparr>" 0 0 0]
      delete_removes_or_emits [OF h1 h2 h3,
        of "\<lparr>sequences = [], current_text = [], sequence_start = Some 0\<rparr>" 0 0 0]
      h1 h2
    by (simp add: key_press_def)
qed

subsection \<open>Claim C10\<close>

text \<open>
  C10: an event whose type is not \<^verbatim>\<open>key_press\<close>, or whose \<^verbatim>\<open>is_character\<close> is absent
  or false, leaves the grouper's state unchanged whatever its key name (Return, Enter,
  Tab, Delete and BackSpace included), so the output for a stream is the output for
  the stream with those events removed; and the accumulator grows in a step only when
  the event passes the guard and its key name has length exactly 1, by that one
  character.
\<close>

theorem grouper_ignores_events_failing_guard:
  "(kb_type event \<noteq> Some ''key_press'' \<or> is_character event \<noteq> Some True \<longrightarrow>
      group_step st event = st)
   \<and> group_text_sequences
        (filter (\<lambda>e. kb_type e = Some ''key_press'' \<and> is_character e = Some True) events)
      = group_text_sequences events
   \<and> (length (current_text st) < length (current_text (group_step st event)) \<longrightarrow>
        kb_type event = Some ''key_press'' \<and> is_character event = Some True
        \<and> (\<exists>k. key_name event = Some k \<and> length k = 1
                \<and> current_text (group_step st event) = current_text st @ k))"
proof -
  have a: "kb_type event \<noteq> Some ''key_press'' \<or> is_character event \<noteq> Some True \<longrightarrow>
      group_step st event = st"
    by (auto simp add: group_step_def is_key_press_character_def)
  have "(\<lambda>e. kb_type e = Some ''key_press'' \<and> is_character e = Some True)
        = is_key_press_character"
    by (simp add: is_key_press_character_def fun_eq_iff)
  then have b: "group_text_sequences
        (filter (\<lambda>e. kb_type e = Some ''key_press'' \<and> is_character e = Some True) events)
      = group_text_sequences events"
    by (simp add: group_text_sequences_def group_loop_filter)
  have c: "length (current_text st) < length (current_text (group_step st event)) \<longrightarrow>
        kb_type event = Some ''key_press'' \<and> is_character event = Some True
        \<and> (\<exists>k. key_name event = Some k \<and> length k = 1
                \<and> current_text (group_step st event) = current_text st @ k)"
    by (auto simp add: group_step_def is_key_press_character_def Let_def
        split: if_splits option.splits)
  from a b c show ?thesis by blast
qed

theorem grouper_ignores_events_failing_guard_witness:
  "is_character
     \<lparr>kb_type = Some ''key_press'', kb_timestamp = Some 2,
      key_name = Some ''Return'', is_character = None\<rparr> \<noteq> Some True
   \<and> group_step \<lparr>sequences = [], current_text = ''hi'', sequence_start = Some 0\<rparr>
       \<lparr>kb_type = Some ''key_press'', kb_timestamp = Some 2,
        key_name = Some ''Return'', is_character = None\<rparr>
      = \<lparr>sequences = [], current_text = ''hi'', sequence_start = Some 0\<rparr>
   \<and> length (current_text group_init)
       < length (current_text (group_step group_init (key_press ''a'' 1)))
   \<and> (\<exists>k. key_name (key_press ''a'' 1) = Some k \<and> length k = 1)"
proof -
  have h: "length (current_text group_init)
       < length (current_text (group_step group_init (key_press ''a'' 1)))"
    by (simp add: group_step_char group_init_def)
  show ?thesis
    using grouper_ignores_events_failing_guard
        [of "\<lparr>kb_type = Some ''key_press'', kb_timestamp = Some 2,
              key_name = Some ''Return'', is_character = None\<rparr>"
            "\<lparr>sequences = [], current_text = ''hi'', sequence_start = Some 0\<rparr>" "[]"]
      grouper_ignores_events_failing_guard [of "key_press ''a'' 1" group_init "[]"] h
    by auto
qed

section \<open>Properties of the interaction extractor\<close>

lemma py_strip_nonempty: "py_strip s \<noteq> [] \<Longrightarrow> s \<noteq> []"
  by (auto simp add: py_strip_def)

text \<open>
  Whenever the accumulator is non-empty its start has been recorded, so no sequence
  with visible text carries \<^verbatim>\<open>None\<close> as its timestamp.
\<close>

lemma group_step_start:
  assumes "current_text st \<noteq> [] \<longrightarrow> sequence_start st \<noteq> None"
  shows "current_text (group_step st event) \<noteq> [] \<longrightarrow>
         sequence_start (group_step st event) \<noteq> None"
  using assms by (auto simp add: group_step_def Let_def)

lemma group_step_sequences:
  assumes "current_text st \<noteq> [] \<longrightarrow> sequence_start st \<noteq> None"
    and "\<forall>s \<in> set (sequences st). py_strip (seq_text s) \<noteq> [] \<longrightarrow> seq_timestamp s \<noteq> None"
  shows "\<forall>s \<in> set (sequences (group_step st event)).
           py_strip (seq_text s) \<noteq> [] \<longrightarrow> seq_timestamp s \<noteq> None"
  using assms by (auto simp add: group_step_def Let_def dest: py_strip_nonempty)

lemma group_loop_timestamps:
  assumes "current_text st \<noteq> [] \<longrightarrow> sequence_start st \<noteq> None"
    and "\<forall>s \<in> set (sequences st). py_strip (seq_text s) \<noteq> [] \<longrightarrow> seq_timestamp s \<noteq> None"
  shows "(current_text (group_loop st events) \<noteq> [] \<longrightarrow>
            sequence_start (group_loop st events) \<noteq> None)
         \<and> (\<forall>s \<in> set (sequences (group_loop st events)).
               py_strip (seq_text s) \<noteq> [] \<longrightarrow> seq_timestamp s \<noteq> None)"
  using assms
proof (induction events arbitrary: st)
  case Nil
  then show ?case by simp
next
  case (Cons event events)
  have "current_text (group_step st event) \<noteq> [] \<longrightarrow>
        sequence_start (group_step st event) \<noteq> None"
    using Cons.prems(1) by (rule group_step_start)
  moreover have "\<forall>s \<in> set (sequences (group_step st event)).
           py_strip (seq_text s) \<noteq> [] \<longrightarrow> seq_timestamp s \<noteq> None"
    using Cons.prems by (rule group_step_sequences)
  ultimately show ?case using Cons.IH [of "group_step st event"] by simp
qed

lemma group_text_sequences_timestamps:
  "\<forall>s \<in> set (group_text_sequences events).
     py_strip (seq_text s) \<noteq> [] \<longrightarrow> seq_timestamp s \<noteq> None"
proof -
  have "(current_text (group_loop group_init events) \<noteq> [] \<longrightarrow>
            sequence_start (group_loop group_init events) \<noteq> None)
         \<and> (\<forall>s \<in> set (sequences (group_loop group_init events)).
               py_strip (seq_text s) \<noteq> [] \<longrightarrow> seq_timestamp s \<noteq> None)"
    by (rule group_loop_timestamps) (simp_all add: group_init_def)
  then show ?thesis
    by (auto simp add: group_text_sequences_def group_finish_def dest: py_strip_nonempty)
qed

lemma type_interactions_total:
  assumes "\<forall>s \<in> set seqs. py_strip (seq_text s) \<noteq> [] \<longrightarrow> seq_timestamp s \<noteq> None"
  shows "\<exists>typed. type_interactions seqs = Inr typed
           \<and> (\<forall>i \<in> set typed. action_type i = ''type'')"
  using assms
proof (induction seqs)
  case Nil
  then show ?case by simp
next
  case (Cons seq seqs)
  then obtain typed where t: "type_interactions seqs = Inr typed"
    "\<forall>i \<in> set typed. action_type i = ''type''"
    by auto
  show ?case
  proof (cases "py_strip (seq_text seq) \<noteq> []")
    case True
    with Cons.prems obtain ts where "seq_timestamp seq = Some ts" by auto
    with True t show ?thesis by simp
  next
    case False
    with t show ?thesis by simp
  qed
qed

lemma type_interactions_grouped:
  "\<exists>typed. type_interactions (group_text_sequences events) = Inr typed
     \<and> (\<forall>i \<in> set typed. action_type i = ''type'')"
  by (rule type_interactions_total) (rule group_text_sequences_timestamps)

text \<open>
  Insertion sort by timestamp keeps entries of equal timestamp in their order in the
  input; when the input is ordered by \<open>fill_rank\<close>, so are the ties of the output.
\<close>

lemma insort_key_before:
  assumes "sorted_wrt before_in_output ys"
    and "\<forall>y \<in> set ys. fill_rank x \<le> fill_rank y"
  shows "sorted_wrt before_in_output (insort_key timestamp x ys)"
  using assms
proof (induction ys)
  case Nil
  then show ?case by simp
next
  case (Cons y ys)
  show ?case
  proof (cases "timestamp x \<le> timestamp y")
    case True
    have "before_in_output x z" if "z \<in> set (y # ys)" for z
    proof -
      have "timestamp y \<le> timestamp z"
        using that Cons.prems(1) by (auto simp add: before_in_output_def)
      with True have "timestamp x \<le> timestamp z" by simp
      moreover have "fill_rank x \<le> fill_rank z" using that Cons.prems(2) by auto
      ultimately show ?thesis by (auto simp add: before_in_output_def)
    qed
    with True Cons.prems(1) show ?thesis by simp
  next
    case False
    then have "before_in_output y x" by (simp add: before_in_output_def)
    moreover have "sorted_wrt before_in_output (insort_key timestamp x ys)"
      using Cons.IH Cons.prems by simp
    ultimately show ?thesis using False Cons.prems(1) by (auto simp add: set_insort_key)
  qed
qed

lemma sort_key_before:
  "sorted (map fill_rank xs) \<Longrightarrow> sorted_wrt before_in_output (sort_key timestamp xs)"
proof (induction xs)
  case Nil
  then show ?case by simp
next
  case (Cons x xs)
  have "sorted_wrt before_in_output (insort_key timestamp x (sort_key timestamp xs))"
  proof (rule insort_key_before)
    show "sorted_wrt before_in_output (sort_key timestamp xs)"
      using Cons by simp
    show "\<forall>y \<in> set (sort_key timestamp xs). fill_rank x \<le> fill_rank y"
      using Cons.prems by simp
  qed
  then show ?case by simp
qed

lemma sorted_constant_rank:
  "\<forall>x \<in> set xs. r x = (c::nat) \<Longrightarrow> sorted (map r xs)"
  by (induction xs) auto

lemma fill_order_sorted:
  assumes "\<forall>i \<in> set typed. action_type i = ''type''"
  shows "sorted (map fill_rank
           (typed @ collect_clicks mouse_events @ map navigate_interaction switches))"
proof -
  have a: "\<forall>i \<in> set typed. fill_rank i = 0"
    using assms by (simp add: fill_rank_def)
  have b: "\<forall>i \<in> set (collect_clicks mouse_events). fill_rank i = 1"
    by (auto simp add: collect_clicks_def click_interaction_def fill_rank_def)
  have c: "\<forall>i \<in> set (map navigate_interaction switches). fill_rank i = 2"
    by (auto simp add: navigate_interaction_def fill_rank_def)
  have "sorted (map fill_rank typed)"
    using a by (rule sorted_constant_rank)
  moreover have "sorted (map fill_rank (collect_clicks mouse_events))"
    using b by (rule sorted_constant_rank)
  moreover have "sorted (map fill_rank (map navigate_interaction switches))"
    using c by (rule sorted_constant_rank)
  ultimately show ?thesis
    using a b c by (auto simp add: sorted_append)
qed

lemma before_in_output_sorted:
  "sorted_wrt before_in_output xs \<Longrightarrow> sorted (map timestamp xs)"
  by (induction xs) (auto simp add: before_in_output_def)

lemma py_strip_a: "py_strip ''a'' = ''a''"
  by (simp add: py_strip_def py_isspace_def)

subsection \<open>Claim C1\<close>

text \<open>
  C1 as written fails in its tie order: the typed sequences are appended to the list
  before the clicks are, and the sort is stable. A left press at time 1 and a key "a"
  at time 1 come out as the typed text first and the click second.
\<close>

theorem click_after_type_on_tie_counterexample:
  "extract_enhanced_interactions
     \<lparr>log_session_info = None,
      mouse_interactions =
        Some [\<lparr>ms_type = Some ''mouse_press'', ms_timestamp = Some 1,
               button = Some ''left'',
               ms_position = Some \<lparr>pos_x = Some 10, pos_y = Some 20\<rparr>\<rparr>],
      keyboard_events = Some [key_press ''a'' 1],
      app_switches = None\<rparr>
   = Inr [\<lparr>timestamp = 1, action_type = ''type'',
           description = ''Type '' @ [CHR 0x27] @ ''a'' @ [CHR 0x27],
           ui_context = Some ''incomplete'', coordinates = None,
           text_content = Some ''a'', confidence = 0\<rparr>,
          \<lparr>timestamp = 1, action_type = ''click'',
           description = ''Click at screen location'',
           ui_context = None, coordinates = Some (10, 20),
           text_content = None, confidence = 0\<rparr>]"
  by (simp add: extract_enhanced_interactions_def group_text_sequences_def
      group_init_def group_finish_def group_step_char py_strip_a collect_clicks_def
      click_interaction_def)

text \<open>
  C1, amended: for every event log, \<^verbatim>\<open>extract_enhanced_interactions\<close> returns a list
  (it does not fail on a missing sequence start), every entry is a type, click or
  navigate interaction, the list is sorted ascending by timestamp, and entries with
  equal timestamp stand in the order keyboard type before mouse click before navigate.
\<close>

theorem extracted_interactions_sorted_type_click_navigate:
  "\<exists>result. extract_enhanced_interactions data = Inr result
     \<and> set (map action_type result) \<subseteq> {''type'', ''click'', ''navigate''}
     \<and> sorted (map timestamp result)
     \<and> sorted_wrt
          (\<lambda>a b. timestamp a < timestamp b
             \<or> (timestamp a = timestamp b \<and> fill_rank a \<le> fill_rank b))
          result"
proof -
  obtain typed where t:
    "type_interactions (group_text_sequences
        (case keyboard_events data of None \<Rightarrow> [] | Some l \<Rightarrow> l)) = Inr typed"
    "\<forall>i \<in> set typed. action_type i = ''type''"
    using type_interactions_grouped by blast
  let ?filled = "typed
      @ collect_clicks (case mouse_interactions data of None \<Rightarrow> [] | Some l \<Rightarrow> l)
      @ map navigate_interaction (case app_switches data of None \<Rightarrow> [] | Some l \<Rightarrow> l)"
  have r: "extract_enhanced_interactions data = Inr (sort_key timestamp ?filled)"
    using t(1) by (simp add: extract_enhanced_interactions_def Let_def)
  have k: "set (map action_type (sort_key timestamp ?filled))
             \<subseteq> {''type'', ''click'', ''navigate''}"
    using t(2) by (auto simp add: collect_clicks_def click_interaction_def
        navigate_interaction_def)
  have "sorted (map fill_rank ?filled)"
    using t(2) by (rule fill_order_sorted)
  then have o: "sorted_wrt before_in_output (sort_key timestamp ?filled)"
    by (rule sort_key_before)
  then have s: "sorted (map timestamp (sort_key timestamp ?filled))"
    by (rule before_in_output_sorted)
  have "before_in_output =
          (\<lambda>a b. timestamp a < timestamp b
             \<or> (timestamp a = timestamp b \<and> fill_rank a \<le> fill_rank b))"
    by (simp add: before_in_output_def fun_eq_iff)
  with r k o s show ?thesis by auto
qed

section \<open>Properties of the time windows\<close>

lemma windows_loop_concat:
  "concat (map w_interactions (windows_loop window_size windows current_window rest)) =
     concat (map w_interactions windows) @ w_interactions current_window @ rest"
  by (induction rest arbitrary: windows current_window) simp_all

lemma windows_loop_nonempty:
  "[] \<notin> set (map w_interactions windows) \<Longrightarrow> w_interactions current_window \<noteq> [] \<Longrightarrow>
   [] \<notin> set (map w_interactions (windows_loop window_size windows current_window rest))"
  by (induction rest arbitrary: windows current_window) auto

subsection \<open>Claim C4\<close>

text \<open>
  C4: the windows of \<^verbatim>\<open>_create_time_windows\<close> partition the input: their interaction
  lists, concatenated in order, are the input list, and none of them is empty, so every
  interaction lies in exactly one window; the empty input gives no window; and four
  interactions at 0, 1, 10 and 10.5 with window size 2.0 give exactly the window from
  0 to 1 holding the first two and the window from 10 to 10.5 holding the last two.
\<close>

theorem time_windows_partition_input:
  "concat (map w_interactions (create_time_windows interactions window_size)) = interactions
   \<and> [] \<notin> set (map w_interactions (create_time_windows interactions window_size))
   \<and> create_time_windows [] window_size = []
   \<and> create_time_windows
        [a\<lparr>timestamp := 0\<rparr>, b\<lparr>timestamp := 1\<rparr>, c\<lparr>timestamp := 10\<rparr>,
         d\<lparr>timestamp := 10.5\<rparr>] 2.0
      = [\<lparr>w_start = 0, w_end = 1,
          w_interactions = [a\<lparr>timestamp := 0\<rparr>, b\<lparr>timestamp := 1\<rparr>]\<rparr>,
         \<lparr>w_start = 10, w_end = 10.5,
          w_interactions = [c\<lparr>timestamp := 10\<rparr>, d\<lparr>timestamp := 10.5\<rparr>]\<rparr>]"
proof -
  have p: "concat (map w_interactions (create_time_windows interactions window_size))
           = interactions"
    by (cases interactions) (simp_all add: create_time_windows_def windows_loop_concat)
  have n: "[] \<notin> set (map w_interactions (create_time_windows interactions window_size))"
  proof (cases interactions)
    case Nil
    then show ?thesis by (simp add: create_time_windows_def)
  next
    case (Cons i rest)
    have "[] \<notin> set (map w_interactions (windows_loop window_size []
            \<lparr>w_start = timestamp i, w_end = timestamp i, w_interactions = [i]\<rparr> rest))"
      by (rule windows_loop_nonempty) simp_all
    with Cons show ?thesis by (simp add: create_time_windows_def)
  qed
  have e: "create_time_windows [] window_size = []"
    by (simp add: create_time_windows_def)
  have x: "create_time_windows
        [a\<lparr>timestamp := 0\<rparr>, b\<lparr>timestamp := 1\<rparr>, c\<lparr>timestamp := 10\<rparr>,
         d\<lparr>timestamp := 10.5\<rparr>] 2.0
      = [\<lparr>w_start = 0, w_end = 1,
          w_interactions = [a\<lparr>timestamp := 0\<rparr>, b\<lparr>timestamp := 1\<rparr>]\<rparr>,
         \<lparr>w_start = 10, w_end = 10.5,
          w_interactions = [c\<lparr>timestamp := 10\<rparr>, d\<lparr>timestamp := 10.5\<rparr>]\<rparr>]"
    by (simp add: create_time_windows_def)
  from p n e x show ?thesis by simp
qed

section \<open>Properties of the gap analyzer\<close>

lemma gaps_between_above:
  "g \<in> set (gaps_between gap_threshold xs) \<Longrightarrow> g_duration g > gap_threshold"
  by (induction gap_threshold xs rule: gaps_between.induct) (auto split: if_splits)

subsection \<open>Claim C3\<close>

text \<open>
  C3 as written fails on the empty list: the early return reports the whole session as
  one gap without looking at the threshold. A session of 3 seconds with threshold 5
  gives a gap of duration 3.
\<close>

theorem empty_list_gap_below_threshold_counterexample:
  "find_interaction_gaps [] 3 5 = [\<lparr>g_start = 0, g_end = 3, g_duration = 3\<rparr>]
   \<and> \<not> g_duration \<lparr>g_start = 0, g_end = 3, g_duration = 3\<rparr> > (5::real)"
  by (simp add: find_interaction_gaps_def)

text \<open>
  C3, amended: for every non-empty interaction list, session duration and threshold,
  every gap returned has a duration strictly greater than the threshold, the leading
  and trailing gaps included.
\<close>

theorem gaps_exceed_threshold:
  assumes "interactions \<noteq> []"
  shows "\<forall>g \<in> set (find_interaction_gaps interactions session_duration gap_threshold).
           g_duration g > gap_threshold"
  using assms
  by (auto simp add: find_interaction_gaps_def Let_def dest: gaps_between_above
      split: if_splits)

theorem gaps_exceed_threshold_witness:
  "[click_interaction \<lparr>ms_type = Some ''mouse_press'', ms_timestamp = Some 20,
                       button = Some ''left'', ms_position = None\<rparr>,
    click_interaction \<lparr>ms_type = Some ''mouse_press'', ms_timestamp = Some 0,
                       button = Some ''left'', ms_position = None\<rparr>] \<noteq> []
   \<and> find_interaction_gaps
       [click_interaction \<lparr>ms_type = Some ''mouse_press'', ms_timestamp = Some 20,
                           button = Some ''left'', ms_position = None\<rparr>,
        click_interaction \<lparr>ms_type = Some ''mouse_press'', ms_timestamp = Some 0,
                           button = Some ''left'', ms_position = None\<rparr>] 30 5
     = [\<lparr>g_start = 0, g_end = 20, g_duration = 20\<rparr>,
        \<lparr>g_start = 20, g_end = 30, g_duration = 10\<rparr>]
   \<and> g_duration \<lparr>g_start = 0, g_end = 20, g_duration = 20\<rparr> > (5::real)
   \<and> g_duration \<lparr>g_start = 20, g_end = 30, g_duration = 10\<rparr> > (5::real)"
proof -
  have e: "find_interaction_gaps
       [click_interaction \<lparr>ms_type = Some ''mouse_press'', ms_timestamp = Some 20,
                           button = Some ''left'', ms_position = None\<rparr>,
        click_interaction \<lparr>ms_type = Some ''mouse_press'', ms_timestamp = Some 0,
                           button = Some ''left'', ms_position = None\<rparr>] 30 5
     = [\<lparr>g_start = 0, g_end = 20, g_duration = 20\<rparr>,
        \<lparr>g_start = 20, g_end = 30, g_duration = 10\<rparr>]"
    by (simp add: find_interaction_gaps_def click_interaction_def)
  have n: "[click_interaction \<lparr>ms_type = Some ''mouse_press'', ms_timestamp = Some 20,
                       button = Some ''left'', ms_position = None\<rparr>,
    click_interaction \<lparr>ms_type = Some ''mouse_press'', ms_timestamp = Some 0,
                       button = Some ''left'', ms_position = None\<rparr>] \<noteq> []"
    by simp
  from gaps_exceed_threshold [OF n, of 30 5] e n show ?thesis by simp
qed

subsection \<open>Claim C5\<close>

text \<open>
  C5: with an empty interaction list the gap analyzer returns exactly one gap, from 0
  to the session duration, with the session duration as its duration, for every
  session duration and every threshold; for a session of 30 seconds it is the gap
  from 0 to 30 of duration 30.
\<close>

theorem empty_list_single_session_gap:
  "find_interaction_gaps [] session_duration gap_threshold
     = [\<lparr>g_start = 0, g_end = session_duration, g_duration = session_duration\<rparr>]
   \<and> find_interaction_gaps [] 30 gap_threshold
     = [\<lparr>g_start = 0, g_end = 30, g_duration = 30\<rparr>]"
  by (simp add: find_interaction_gaps_def)

section \<open>Properties of the completeness scorer\<close>

lemma py_lower_Login: "py_lower ''Login'' = ''login''"
  by code_simp

lemma py_lower_ok: "py_lower ''ok'' = ''ok''"
  by code_simp

lemma has_login_Login: "has_login_of ''Login''"
  by (simp add: has_login_of_def login_words_def py_lower_Login)

lemma no_login_ok: "\<not> has_login_of ''ok''"
  by (simp add: has_login_of_def login_words_def py_lower_ok)

lemma no_completion_ok_Login:
  "\<not> has_completion_of ''ok''" "\<not> has_completion_of ''Login''"
  by (simp_all add: has_completion_of_def completion_words_def py_lower_Login py_lower_ok)

lemma no_murex_patterns_ok_Login:
  "\<not> has_murex_patterns_of ''ok''" "\<not> has_murex_patterns_of ''Login''"
  by (simp_all add: has_murex_patterns_of_def murex_pattern_count_of_def murex_patterns_def
      py_lower_Login py_lower_ok)

lemma no_markers_ok_Login:
  "\<not> has_numbered_steps_of ''ok''" "\<not> has_numbered_steps_of ''Login''"
  "\<not> has_descriptive_headers_of ''ok''" "\<not> has_descriptive_headers_of ''Login''"
  by (simp_all add: has_numbered_steps_of_def has_descriptive_headers_of_def)

lemma not_adequate_ok_Login:
  "\<not> adequate_length_of ''ok'' []" "\<not> adequate_length_of ''Login'' []"
  by (simp_all add: adequate_length_of_def expected_min_length_of_def)

subsection \<open>Claim C6\<close>

text \<open>
  C6: for two texts scored with the same interaction list, the first without a login
  keyword and the second with one, and with the completion, pattern-count, length,
  numbered-step and bold-header criteria evaluating alike on both, the score of the
  second is the score of the first plus 2.
\<close>

theorem login_keyword_adds_two:
  assumes "\<not> has_login (assess_workflow_completeness text1 duration1 interactions)"
    and "has_login (assess_workflow_completeness text2 duration2 interactions)"
    and "has_completion (assess_workflow_completeness text1 duration1 interactions)
         = has_completion (assess_workflow_completeness text2 duration2 interactions)"
    and "has_murex_patterns (assess_workflow_completeness text1 duration1 interactions)
         = has_murex_patterns (assess_workflow_completeness text2 duration2 interactions)"
    and "adequate_length (assess_workflow_completeness text1 duration1 interactions)
         = adequate_length (assess_workflow_completeness text2 duration2 interactions)"
    and "has_numbered_steps_of text1 = has_numbered_steps_of text2"
    and "has_descriptive_headers_of text1 = has_descriptive_headers_of text2"
  shows "score (assess_workflow_completeness text2 duration2 interactions)
         = score (assess_workflow_completeness text1 duration1 interactions) + 2"
  using assms by (simp add: assess_workflow_completeness_def)

theorem login_keyword_adds_two_witness:
  "\<not> has_login (assess_workflow_completeness ''ok'' 15 [])
   \<and> has_login (assess_workflow_completeness ''Login'' 15 [])
   \<and> score (assess_workflow_completeness ''ok'' 15 []) = 0
   \<and> score (assess_workflow_completeness ''Login'' 15 []) = 2"
proof -
  have h1: "\<not> has_login (assess_workflow_completeness ''ok'' 15 [])"
    by (simp add: assess_workflow_completeness_def no_login_ok)
  have h2: "has_login (assess_workflow_completeness ''Login'' 15 [])"
    by (simp add: assess_workflow_completeness_def has_login_Login)
  have h3: "has_completion (assess_workflow_completeness ''ok'' 15 [])
         = has_completion (assess_workflow_completeness ''Login'' 15 [])"
    by (simp add: assess_workflow_completeness_def no_completion_ok_Login)
  have h4: "has_murex_patterns (assess_workflow_completeness ''ok'' 15 [])
         = has_murex_patterns (assess_workflow_completeness ''Login'' 15 [])"
    by (simp add: assess_workflow_completeness_def no_murex_patterns_ok_Login)
  have h5: "adequate_length (assess_workflow_completeness ''ok'' 15 [])
         = adequate_length (assess_workflow_completeness ''Login'' 15 [])"
    by (simp add: assess_workflow_completeness_def not_adequate_ok_Login)
  have h6: "has_numbered_steps_of ''ok'' = has_numbered_steps_of ''Login''"
    by (simp add: no_markers_ok_Login)
  have h7: "has_descriptive_headers_of ''ok'' = has_descriptive_headers_of ''Login''"
    by (simp add: no_markers_ok_Login)
  have z: "score (assess_workflow_completeness ''ok'' 15 []) = 0"
    by (simp add: assess_workflow_completeness_def no_login_ok no_completion_ok_Login
        no_murex_patterns_ok_Login no_markers_ok_Login not_adequate_ok_Login)
  from login_keyword_adds_two [OF h1 h2 h3 h4 h5 h6 h7] z h1 h2 show ?thesis by simp
qed

subsection \<open>Claim C8\<close>

text \<open>
  C8: the scorer's expected minimum length is the larger of 400 and 25 times the
  number of interactions, and \<^verbatim>\<open>adequate_length\<close> holds exactly when the text is at
  least that long: a text of exactly that length is adequate, a text one character
  shorter is not.
\<close>

theorem adequate_length_boundary:
  "expected_min_length (assess_workflow_completeness text session_duration interactions)
     = max 400 (25 * length interactions)
   \<and> adequate_length (assess_workflow_completeness text session_duration interactions)
     = (length text \<ge> expected_min_length
          (assess_workflow_completeness text session_duration interactions))
   \<and> (length text = max 400 (25 * length interactions) \<longrightarrow>
        adequate_length (assess_workflow_completeness text session_duration interactions))
   \<and> (length text + 1 = max 400 (25 * length interactions) \<longrightarrow>
        \<not> adequate_length (assess_workflow_completeness text session_duration interactions))"
  by (auto simp add: assess_workflow_completeness_def adequate_length_of_def
      expected_min_length_of_def mult.commute)

theorem adequate_length_boundary_witness:
  "length (replicate 400 CHR ''a'') = max 400 (25 * length ([] :: UIInteraction list))
   \<and> adequate_length (assess_workflow_completeness (replicate 400 CHR ''a'') 15 [])
   \<and> length (replicate 399 CHR ''a'') + 1 = max 400 (25 * length ([] :: UIInteraction list))
   \<and> \<not> adequate_length (assess_workflow_completeness (replicate 399 CHR ''a'') 15 [])"
  using adequate_length_boundary [of "replicate 400 CHR ''a''" 15 "[]"]
    adequate_length_boundary [of "replicate 399 CHR ''a''" 15 "[]"]
  by simp

section \<open>Properties of the validator\<close>

subsection \<open>Claim C9\<close>

text \<open>
  C9: for a document with neither \<^verbatim>\<open>mouse_interactions\<close> nor \<^verbatim>\<open>keyboard_events\<close>,
  \<^verbatim>\<open>validate_json_file\<close> returns a list that starts with two results of severity
  \<^verbatim>\<open>error\<close> (missing keys, no interactions) and holds no result of severity
  \<^verbatim>\<open>info\<close>; the invalidity is a value of the result list.
\<close>

theorem missing_keys_reported_as_errors:
  assumes "mouse_interactions data = None" and "keyboard_events data = None"
  shows "take 2 (validate_json_file json_path (Document data))
         = [\<lparr>is_valid = False,
             message = MissingRequiredKeys [''mouse_interactions'', ''keyboard_events''],
             severity = ''error'',
             suggestion =
               Some ''Ensure the interaction recording captured all required data''\<rparr>,
            \<lparr>is_valid = False,
             message = NoInteractionsFound,
             severity = ''error'',
             suggestion = Some ''Re-record the workflow with user interactions''\<rparr>]
     \<and> list_ex (\<lambda>r. severity r = ''error'') (validate_json_file json_path (Document data))
     \<and> \<not> list_ex (\<lambda>r. severity r = ''info'') (validate_json_file json_path (Document data))"
  using assms by (simp add: validate_json_file_def missing_keys_of_def Let_def)

theorem missing_keys_reported_as_errors_witness:
  "mouse_interactions
     \<lparr>log_session_info = None, mouse_interactions = None,
      keyboard_events = None, app_switches = None\<rparr> = None
   \<and> map severity (validate_json_file ''session.json''
        (Document \<lparr>log_session_info = None, mouse_interactions = None,
                   keyboard_events = None, app_switches = None\<rparr>))
      = [''error'', ''error'', ''warning'']
   \<and> \<not> list_ex (\<lambda>r. severity r = ''info'') (validate_json_file ''session.json''
        (Document \<lparr>log_session_info = None, mouse_interactions = None,
                   keyboard_events = None, app_switches = None\<rparr>))"
proof -
  have h1: "mouse_interactions
     \<lparr>log_session_info = None, mouse_interactions = None,
      keyboard_events = None, app_switches = None\<rparr> = None"
    by simp
  have h2: "keyboard_events
     \<lparr>log_session_info = None, mouse_interactions = None,
      keyboard_events = None, app_switches = None\<rparr> = None"
    by simp
  have e: "map severity (validate_json_file ''session.json''
        (Document \<lparr>log_session_info = None, mouse_interactions = None,
                   keyboard_events = None, app_switches = None\<rparr>))
      = [''error'', ''error'', ''warning'']"
    by (simp add: validate_json_file_def missing_keys_of_def)
  from missing_keys_reported_as_errors [OF h1 h2, of "''session.json''"] e h1
  show ?thesis by blast
qed

end
